theory Spec2Isabelle
  imports Main
begin

section \<open>JavaScript values and objects\<close>

text \<open>
  The values that travel through the action creators: \<open>undefined\<close>, \<open>null\<close>,
  booleans, strings, and references to objects owned by the conferencing SDK
  (a connection, a conference, a media track), which the code only passes around.
  Strict equality \<open>===\<close> on these values is equality of the datatype: strings and
  booleans compare by value, references by identity.
\<close>

datatype jsval = JsUndefined | JsNull | JsBool bool | JsString string | JsRef nat

text \<open>Truthiness, as \<open>if (v)\<close>, \<open>!v\<close> and \<open>a && b\<close> read a value.\<close>

fun truthy :: "jsval \<Rightarrow> bool" where
  "truthy JsUndefined = False"
| "truthy JsNull = False"
| "truthy (JsBool b) = b"
| "truthy (JsString s) = (s \<noteq> [])"
| "truthy (JsRef r) = True"

text \<open>
  A plain object is a finite map from property names to values. Reading a property
  the object does not have gives \<open>undefined\<close>.
\<close>

type_synonym obj = "string \<rightharpoonup> jsval"

definition getp :: "obj \<Rightarrow> string \<Rightarrow> jsval" where
  "getp ob k = (case ob k of None \<Rightarrow> JsUndefined | Some v \<Rightarrow> v)"

section \<open>Actions\<close>

datatype action_type =
    DOMINANT_SPEAKER_CHANGED
  | PARTICIPANT_ID_CHANGED
  | PARTICIPANT_JOINED
  | PARTICIPANT_LEFT
  | PARTICIPANT_PINNED
  | PARTICIPANT_UPDATED
  | CONFERENCE_JOINED
  | CONFERENCE_LEFT
  | ROOM_SET

text \<open>
  \<open>ParticipantAction T ob\<close> is the object \<open>{type: T, participant: ob}\<close> and
  \<open>ConferenceAction T ob\<close> is \<open>{type: T, conference: ob}\<close>.
\<close>

datatype action =
    ParticipantAction action_type obj
  | ConferenceAction action_type obj

subsection \<open>Plain action creators of features/base/participants/actions.js\<close>

definition changeParticipantEmail :: "jsval \<Rightarrow> jsval \<Rightarrow> action" where
  "changeParticipantEmail pid email =
     ParticipantAction PARTICIPANT_UPDATED [''id'' \<mapsto> pid, ''email'' \<mapsto> email]"

definition dominantSpeakerChanged :: "jsval \<Rightarrow> action" where
  "dominantSpeakerChanged pid =
     ParticipantAction DOMINANT_SPEAKER_CHANGED [''id'' \<mapsto> pid]"

definition participantJoined :: "obj \<Rightarrow> action" where
  "participantJoined participant = ParticipantAction PARTICIPANT_JOINED participant"

text \<open>
  \<open>localParticipantJoined(participant = {})\<close>: the argument is \<open>None\<close> when the caller
  passes nothing, and the default \<open>{}\<close> is taken. The spread
  \<open>{...participant, local: true}\<close> copies the properties and then sets \<open>local\<close>.
\<close>

definition localParticipantJoined :: "obj option \<Rightarrow> action" where
  "localParticipantJoined arg =
     (let participant = (case arg of None \<Rightarrow> Map.empty | Some ob \<Rightarrow> ob)
      in participantJoined (participant(''local'' \<mapsto> JsBool True)))"

definition participantLeft :: "jsval \<Rightarrow> action" where
  "participantLeft pid = ParticipantAction PARTICIPANT_LEFT [''id'' \<mapsto> pid]"

definition participantRoleChanged :: "jsval \<Rightarrow> jsval \<Rightarrow> action" where
  "participantRoleChanged pid role =
     ParticipantAction PARTICIPANT_UPDATED [''id'' \<mapsto> pid, ''role'' \<mapsto> role]"

subsection \<open>Plain action creators of the conference module\<close>

definition conferenceLeft :: "jsval \<Rightarrow> action" where
  "conferenceLeft conference =
     ConferenceAction CONFERENCE_LEFT [''jitsiConference'' \<mapsto> conference]"

definition roomSet :: "jsval \<Rightarrow> action" where
  "roomSet room = ConferenceAction ROOM_SET [''room'' \<mapsto> room]"

section \<open>The store, effects and thunks\<close>

text \<open>
  The four slices of the store state that the thunks read:
  \<open>state['features/base/conference']\<close>, \<open>state['features/base/connection']\<close>,
  \<open>state['features/base/participants']\<close> and \<open>state['features/base/tracks']\<close>.
\<close>

record state =
  base_conference :: obj
  base_connection :: jsval
  base_participants :: "obj list"
  base_tracks :: "obj list"

text \<open>
  A media track as the SDK hands it to a listener: its reference and what
  \<open>track.isLocal()\<close> answers. A listener may also receive no track (\<open>None\<close>).
\<close>

record sdk_track =
  track_ref :: nat
  isLocal :: bool

text \<open>The user object of the \<open>USER_JOINED\<close> event, by what its two getters answer.\<close>

record sdk_user =
  getDisplayName :: jsval
  getRole :: jsval

text \<open>
  The action creators \<open>trackAdded\<close>, \<open>trackMuteChanged\<close> and \<open>trackRemoved\<close> are imported
  from the tracks module, which is outside the files at hand: what they return is
  kept symbolic, as the creator and its argument.
\<close>

datatype track_creator = trackAdded | trackMuteChanged | trackRemoved

datatype dispatched =
    Plain action
  | Track track_creator "sdk_track option"

datatype conference_event =
    EV_CONFERENCE_JOINED
  | EV_CONFERENCE_LEFT
  | EV_DOMINANT_SPEAKER_CHANGED
  | EV_TRACK_ADDED
  | EV_TRACK_MUTE_CHANGED
  | EV_TRACK_REMOVED
  | EV_USER_JOINED
  | EV_USER_LEFT
  | EV_USER_ROLE_CHANGED

datatype command = EMAIL_COMMAND

text \<open>
  What a thunk or a listener does to the outside, in the order it does it. Calls into
  the SDK are recorded and taken to return normally.
\<close>

datatype effect =
    Dispatch dispatched
  | PinParticipantCall nat jsval
  | InitJitsiConference nat jsval bool
  | On nat conference_event
  | AddCommandListener nat command
  | Join nat
  | AddLocalTracksToConference jsval "jsval list"

datatype error = Error string | TypeError

datatype completion = Normal | Throw error

type_synonym thunk = "state \<Rightarrow> effect list \<times> completion"

fun is_dispatch :: "effect \<Rightarrow> bool" where
  "is_dispatch (Dispatch d) = True"
| "is_dispatch e = False"

fun is_sdk_call :: "effect \<Rightarrow> bool" where
  "is_sdk_call (Dispatch d) = False"
| "is_sdk_call e = True"

text \<open>
  The store state after a run: only a dispatch reaches the reducer. The reducer is a
  parameter here.
\<close>

fun store_after :: "(state \<Rightarrow> dispatched \<Rightarrow> state) \<Rightarrow> state \<Rightarrow> effect list \<Rightarrow> state" where
  "store_after reducer st [] = st"
| "store_after reducer st (Dispatch d # es) = store_after reducer (reducer st d) es"
| "store_after reducer st (e # es) = store_after reducer st es"

subsection \<open>Thunks of features/base/participants/actions.js\<close>

text \<open>\<open>_getLocalParticipant\<close>: the first participant of the roster whose \<open>local\<close> is truthy.\<close>

definition getLocalParticipant :: "state \<Rightarrow> obj option" where
  "getLocalParticipant st = find (\<lambda>p. truthy (getp p ''local'')) (base_participants st)"

definition localParticipantIdChanged :: "jsval \<Rightarrow> thunk" where
  "localParticipantIdChanged pid st =
     (case getLocalParticipant st of
        Some localParticipant \<Rightarrow>
          ([Dispatch (Plain (ParticipantAction PARTICIPANT_ID_CHANGED
              [''newId'' \<mapsto> pid, ''previousId'' \<mapsto> getp localParticipant ''id'']))], Normal)
      | None \<Rightarrow> ([], Normal))"

definition localParticipantLeft :: thunk where
  "localParticipantLeft st =
     (case getLocalParticipant st of
        Some participant \<Rightarrow> ([Dispatch (Plain (participantLeft (getp participant ''id'')))], Normal)
      | None \<Rightarrow> ([], Normal))"

text \<open>
  The condition of \<open>pinParticipant\<close> under which it signals the pin to the conference:
  \<open>(participant && !participant.local) ||
   (!participant && (!localParticipant || !localParticipant.pinned))\<close>.
\<close>

definition pin_signalled :: "obj option \<Rightarrow> obj option \<Rightarrow> bool" where
  "pin_signalled participant localParticipant =
     (case participant of
        Some p \<Rightarrow> \<not> truthy (getp p ''local'')
      | None \<Rightarrow> (case localParticipant of
                   None \<Rightarrow> True
                 | Some lp \<Rightarrow> \<not> truthy (getp lp ''pinned'')))"

text \<open>
  \<open>conference.pinParticipant(id)\<close> is a method call on whatever the conference slice
  holds under \<open>jitsiConference\<close>: on a conference object the SDK is called, on anything
  else the call throws a \<open>TypeError\<close> and the dispatch below it is not reached.
\<close>

definition pinParticipant :: "jsval \<Rightarrow> thunk" where
  "pinParticipant pid st =
     (let conference = getp (base_conference st) ''jitsiConference'';
          participant = find (\<lambda>p. getp p ''id'' = pid) (base_participants st);
          localParticipant = getLocalParticipant st;
          pinned = Dispatch (Plain (ParticipantAction PARTICIPANT_PINNED [''id'' \<mapsto> pid]))
      in if pin_signalled participant localParticipant
         then (case conference of
                 JsRef c \<Rightarrow> ([PinParticipantCall c pid, pinned], Normal)
               | _ \<Rightarrow> ([], Throw TypeError))
         else ([pinned], Normal))"

subsection \<open>Thunks and listeners of the conference module\<close>

text \<open>
  \<open>_setupConferenceListeners\<close>: the registrations, in order. What each registered
  listener does when the SDK calls it is \<open>listener\<close> below.
\<close>

definition setupConferenceListeners :: "nat \<Rightarrow> effect list" where
  "setupConferenceListeners conference =
     [On conference EV_CONFERENCE_JOINED,
      On conference EV_CONFERENCE_LEFT,
      On conference EV_DOMINANT_SPEAKER_CHANGED,
      On conference EV_TRACK_ADDED,
      On conference EV_TRACK_MUTE_CHANGED,
      On conference EV_TRACK_REMOVED,
      On conference EV_USER_JOINED,
      On conference EV_USER_LEFT,
      On conference EV_USER_ROLE_CHANGED,
      AddCommandListener conference EMAIL_COMMAND]"

definition conferenceJoined :: "jsval \<Rightarrow> thunk" where
  "conferenceJoined conference st =
     (let localTracks = map (\<lambda>t. getp t ''jitsiTrack'')
                            (filter (\<lambda>t. truthy (getp t ''local'')) (base_tracks st))
      in ((if length localTracks \<noteq> 0
           then [AddLocalTracksToConference conference localTracks] else [])
          @ [Dispatch (Plain (ConferenceAction CONFERENCE_JOINED
                                [''jitsiConference'' \<mapsto> conference]))], Normal))"

text \<open>An event as the SDK delivers it: its name together with the listener's arguments.\<close>

datatype delivery =
    ConferenceJoinedEvent
  | ConferenceLeftEvent
  | DominantSpeakerChangedEvent jsval
  | TrackAddedEvent "sdk_track option"
  | TrackMuteChangedEvent "sdk_track option"
  | TrackRemovedEvent "sdk_track option"
  | UserJoinedEvent jsval sdk_user
  | UserLeftEvent jsval
  | UserRoleChangedEvent jsval jsval
  | EmailCommand obj jsval

text \<open>
  The listeners that \<open>_setupConferenceListeners(conference)\<close> registers. Dispatching a
  thunk runs it at once, so the \<open>CONFERENCE_JOINED\<close> listener runs \<open>conferenceJoined\<close>.
\<close>

fun listener :: "nat \<Rightarrow> delivery \<Rightarrow> thunk" where
  "listener conference ConferenceJoinedEvent st = conferenceJoined (JsRef conference) st"
| "listener conference ConferenceLeftEvent st =
     ([Dispatch (Plain (conferenceLeft (JsRef conference)))], Normal)"
| "listener conference (DominantSpeakerChangedEvent pid) st =
     ([Dispatch (Plain (dominantSpeakerChanged pid))], Normal)"
| "listener conference (TrackAddedEvent track) st =
     (case track of
        None \<Rightarrow> ([], Normal)
      | Some t \<Rightarrow> if isLocal t then ([], Normal)
                  else ([Dispatch (Track trackAdded track)], Normal))"
| "listener conference (TrackMuteChangedEvent track) st =
     ([Dispatch (Track trackMuteChanged track)], Normal)"
| "listener conference (TrackRemovedEvent track) st =
     (case track of
        None \<Rightarrow> ([], Normal)
      | Some t \<Rightarrow> if isLocal t then ([], Normal)
                  else ([Dispatch (Track trackRemoved track)], Normal))"
| "listener conference (UserJoinedEvent pid user) st =
     ([Dispatch (Plain (participantJoined
         [''id'' \<mapsto> pid, ''name'' \<mapsto> getDisplayName user, ''role'' \<mapsto> getRole user]))], Normal)"
| "listener conference (UserLeftEvent pid) st =
     ([Dispatch (Plain (participantLeft pid))], Normal)"
| "listener conference (UserRoleChangedEvent pid role) st =
     ([Dispatch (Plain (participantRoleChanged pid role))], Normal)"
| "listener conference (EmailCommand data pid) st =
     ([Dispatch (Plain (changeParticipantEmail pid (getp data ''value'')))], Normal)"



text \<open>The participant that \<open>pinParticipant(id)\<close> finds by id, and whether it then signals.\<close>

abbreviation participantById :: "jsval \<Rightarrow> state \<Rightarrow> obj option" where
  "participantById pid st \<equiv> find (\<lambda>p. getp p ''id'' = pid) (base_participants st)"

abbreviation pin_due :: "jsval \<Rightarrow> state \<Rightarrow> bool" where
  "pin_due pid st \<equiv> pin_signalled (participantById pid st) (getLocalParticipant st)"

abbreviation pinnedAction :: "jsval \<Rightarrow> effect" where
  "pinnedAction pid \<equiv> Dispatch (Plain (ParticipantAction PARTICIPANT_PINNED [''id'' \<mapsto> pid]))"

text \<open>The value of \<open>localTracks\<close> in \<open>conferenceJoined\<close>.\<close>

abbreviation localTracksOf :: "state \<Rightarrow> jsval list" where
  "localTracksOf st \<equiv>
     map (\<lambda>t. getp t ''jitsiTrack'') (filter (\<lambda>t. truthy (getp t ''local'')) (base_tracks st))"

abbreviation joinedAction :: "jsval \<Rightarrow> effect" where
  "joinedAction c \<equiv>
     Dispatch (Plain (ConferenceAction CONFERENCE_JOINED [''jitsiConference'' \<mapsto> c]))"

section \<open>The roster\<close>




section \<open>Example states\<close>

definition roster_example :: "obj list" where
  "roster_example =
     [[''id'' \<mapsto> JsString ''remote1'', ''name'' \<mapsto> JsString ''Ann''],
      [''id'' \<mapsto> JsString ''me'', ''local'' \<mapsto> JsBool True]]"

text \<open>A state in a conference: a connection, a conference, two participants, two tracks.\<close>

definition state_example :: state where
  "state_example =
     \<lparr>base_conference = [''jitsiConference'' \<mapsto> JsRef 7],
      base_connection = JsRef 3,
      base_participants = roster_example,
      base_tracks = [[''local'' \<mapsto> JsBool True, ''jitsiTrack'' \<mapsto> JsRef 11],
                     [''local'' \<mapsto> JsBool False, ''jitsiTrack'' \<mapsto> JsRef 12]]\<rparr>"

text \<open>
  A state before any conference: no connection, no conference object, one remote
  participant in the roster and no local one, no tracks.
\<close>

definition state_no_conference :: state where
  "state_no_conference =
     \<lparr>base_conference = Map.empty,
      base_connection = JsUndefined,
      base_participants = [[''id'' \<mapsto> JsString ''remote1'']],
      base_tracks = []\<rparr>"

section \<open>Auxiliary facts\<close>

lemma find_unique_key:
  assumes "distinct (map f xs)" "x \<in> set xs"
  shows "find (\<lambda>y. f y = f x) xs = Some x"
  using assms
proof (induction xs)
  case Nil
  then show ?case by simp
next
  case (Cons a xs)
  then show ?case by (cases "a = x") (auto simp: image_iff)
qed

lemma find_Some_mem: "find P xs = Some x \<Longrightarrow> x \<in> set xs \<and> P x"
  by (induction xs) (auto split: if_splits)

lemma pin_signalled_iff:
  "pin_signalled participant localParticipant =
     ((\<exists>p. participant = Some p \<and> \<not> truthy (getp p ''local''))
      \<or> (participant = None
          \<and> (localParticipant = None
              \<or> (\<exists>lp. localParticipant = Some lp \<and> \<not> truthy (getp lp ''pinned'')))))"
  by (simp add: pin_signalled_def split: option.splits)

lemma example_local:
  "getLocalParticipant state_example =
     Some [''id'' \<mapsto> JsString ''me'', ''local'' \<mapsto> JsBool True]"
  by (simp add: getLocalParticipant_def state_example_def roster_example_def getp_def)

lemma example_conference:
  "getp (base_conference state_example) ''jitsiConference'' = JsRef 7"
  by (simp add: state_example_def getp_def)

lemma no_conference_no_local: "getLocalParticipant state_no_conference = None"
  by (simp add: getLocalParticipant_def state_no_conference_def getp_def)




section \<open>Pinning\<close>

text \<open>
  C1, as the code has it. The conditional of \<open>pinParticipant\<close> keeps the pin of the local
  participant from being signalled to the conference, and no more: in a roster with unique
  ids, \<open>pinParticipant(id)\<close> with the id of the participant flagged local makes no SDK
  call, and still dispatches \<open>PARTICIPANT_PINNED\<close> with that id to the store.
\<close>

theorem pin_local_not_signalled:
  assumes "getLocalParticipant st = Some lp"
    and "getp lp ''id'' = pid"
    and "distinct (map (\<lambda>p. getp p ''id'') (base_participants st))"
  shows "pinParticipant pid st = ([pinnedAction pid], Normal)"
proof -
  from assms(1) have mem: "lp \<in> set (base_participants st)"
    and loc: "truthy (getp lp ''local'')"
    using find_Some_mem [of "\<lambda>p. truthy (getp p ''local'')" "base_participants st" lp]
    by (simp_all add: getLocalParticipant_def)
  from find_unique_key [OF assms(3) mem] assms(2)
  have "participantById pid st = Some lp" by simp
  with loc show ?thesis
    by (simp add: pinParticipant_def pin_signalled_def Let_def)
qed

theorem pin_local_not_signalled_witness:
  "getLocalParticipant state_example =
     Some [''id'' \<mapsto> JsString ''me'', ''local'' \<mapsto> JsBool True]
   \<and> distinct (map (\<lambda>p. getp p ''id'') (base_participants state_example))
   \<and> pinParticipant (JsString ''me'') state_example =
       ([pinnedAction (JsString ''me'')], Normal)"
proof -
  have b: "getp [''id'' \<mapsto> JsString ''me'', ''local'' \<mapsto> JsBool True] ''id'' = JsString ''me''"
    by (simp add: getp_def)
  have c: "distinct (map (\<lambda>p. getp p ''id'') (base_participants state_example))"
    by (simp add: state_example_def roster_example_def getp_def)
  show ?thesis
    using example_local c pin_local_not_signalled [OF example_local b c] by simp
qed

text \<open>
  C1, as the claim states it, fails: with the local participant \<open>me\<close> in the roster,
  \<open>pinParticipant('me')\<close> dispatches the action that names \<open>me\<close> as the pinned
  participant.
\<close>

theorem pin_local_counterexample:
  "getLocalParticipant state_example =
     Some [''id'' \<mapsto> JsString ''me'', ''local'' \<mapsto> JsBool True]
   \<and> pinnedAction (JsString ''me'') \<in> set (fst (pinParticipant (JsString ''me'') state_example))"
  by (simp add: getLocalParticipant_def pinParticipant_def pin_signalled_def
      state_example_def roster_example_def getp_def)

text \<open>
  C2, as the code has it. Where the conference slice holds a conference object whenever
  the pin is to be signalled, \<open>pinParticipant(id)\<close> returns normally and dispatches
  exactly one action, \<open>{type: PARTICIPANT_PINNED, participant: {id}}\<close>; the SDK call
  \<open>conference.pinParticipant(id)\<close> is made exactly when the participant found by id is
  not local, or none is found and no local participant is pinned, and it then comes
  before the dispatch.
\<close>

theorem pinParticipant_signals_before_dispatch:
  assumes "pin_due pid st \<Longrightarrow> getp (base_conference st) ''jitsiConference'' = JsRef c"
  shows "snd (pinParticipant pid st) = Normal
    \<and> filter is_dispatch (fst (pinParticipant pid st)) = [pinnedAction pid]
    \<and> fst (pinParticipant pid st) =
        (if pin_due pid st then [PinParticipantCall c pid, pinnedAction pid]
         else [pinnedAction pid])
    \<and> pin_due pid st =
        ((\<exists>p. participantById pid st = Some p \<and> \<not> truthy (getp p ''local''))
         \<or> (participantById pid st = None
             \<and> (getLocalParticipant st = None
                 \<or> (\<exists>lp. getLocalParticipant st = Some lp
                          \<and> \<not> truthy (getp lp ''pinned'')))))"
proof -
  have run: "pinParticipant pid st =
      (if pin_due pid st then [PinParticipantCall c pid, pinnedAction pid]
       else [pinnedAction pid], Normal)"
  proof (cases "pin_due pid st")
    case True
    with assms show ?thesis
      by (simp add: pinParticipant_def Let_def)
  next
    case False
    then show ?thesis
      by (simp add: pinParticipant_def Let_def)
  qed
  have cond: "pin_due pid st =
        ((\<exists>p. participantById pid st = Some p \<and> \<not> truthy (getp p ''local''))
         \<or> (participantById pid st = None
             \<and> (getLocalParticipant st = None
                 \<or> (\<exists>lp. getLocalParticipant st = Some lp
                          \<and> \<not> truthy (getp lp ''pinned'')))))"
    by (rule pin_signalled_iff)
  from run have "snd (pinParticipant pid st) = Normal"
    and "filter is_dispatch (fst (pinParticipant pid st)) = [pinnedAction pid]"
    and "fst (pinParticipant pid st) =
        (if pin_due pid st then [PinParticipantCall c pid, pinnedAction pid]
         else [pinnedAction pid])"
    by simp_all
  with cond show ?thesis by blast
qed

theorem pinParticipant_signals_before_dispatch_witness:
  "pin_due (JsString ''remote1'') state_example
   \<and> getp (base_conference state_example) ''jitsiConference'' = JsRef 7
   \<and> pinParticipant (JsString ''remote1'') state_example =
       ([PinParticipantCall 7 (JsString ''remote1''), pinnedAction (JsString ''remote1'')],
        Normal)"
proof -
  have b: "pin_due (JsString ''remote1'') state_example"
    by (simp add: pin_signalled_def getLocalParticipant_def state_example_def
        roster_example_def getp_def)
  show ?thesis
    using b example_conference
      pinParticipant_signals_before_dispatch
        [of "JsString ''remote1''" state_example 7, OF example_conference]
    by (simp add: prod_eq_iff)
qed

text \<open>
  C2, as the claim states it, fails: before any conference the slice holds no conference
  object, the pin of a remote participant is to be signalled, the method call throws,
  and nothing is dispatched.
\<close>

theorem pinParticipant_no_conference_counterexample:
  "pinParticipant (JsString ''remote1'') state_no_conference = ([], Throw TypeError)
   \<and> filter is_dispatch (fst (pinParticipant (JsString ''remote1'') state_no_conference)) = []"
  by (simp add: pinParticipant_def pin_signalled_def getLocalParticipant_def
      state_no_conference_def getp_def)

section \<open>Creating and joining a conference\<close>



section \<open>The roster invariant\<close>




section \<open>The local participant\<close>



text \<open>
  C6. \<open>conferenceJoined(c)\<close> returns normally and dispatches exactly one action,
  \<open>{type: CONFERENCE_JOINED, conference: {jitsiConference: c}}\<close>, holding \<open>c\<close> itself, as
  the last thing it does; its only other effect is the call
  \<open>_addLocalTracksToConference(c, ts)\<close>, made exactly when the list \<open>ts\<close> of the local
  tracks of the state is not empty, and made before the dispatch.
\<close>

theorem conferenceJoined_adds_tracks_then_dispatches:
  "snd (conferenceJoined c st) = Normal
   \<and> filter is_dispatch (fst (conferenceJoined c st)) = [joinedAction c]
   \<and> last (fst (conferenceJoined c st)) = joinedAction c
   \<and> getp [''jitsiConference'' \<mapsto> c] ''jitsiConference'' = c
   \<and> (AddLocalTracksToConference c (localTracksOf st) \<in> set (fst (conferenceJoined c st)))
       = (localTracksOf st \<noteq> [])
   \<and> fst (conferenceJoined c st) =
       (if localTracksOf st = [] then [joinedAction c]
        else [AddLocalTracksToConference c (localTracksOf st), joinedAction c])"
  by (simp add: conferenceJoined_def Let_def getp_def)

theorem conferenceJoined_adds_tracks_witness:
  "conferenceJoined (JsRef 7) state_example =
     ([AddLocalTracksToConference (JsRef 7) [JsRef 11], joinedAction (JsRef 7)], Normal)
   \<and> conferenceJoined (JsRef 7) state_no_conference = ([joinedAction (JsRef 7)], Normal)"
  using conferenceJoined_adds_tracks_then_dispatches [of "JsRef 7" state_example]
    conferenceJoined_adds_tracks_then_dispatches [of "JsRef 7" state_no_conference]
  by (simp add: state_example_def state_no_conference_def getp_def prod_eq_iff)

section \<open>Plain action creators\<close>

text \<open>
  C7. The four plain creators of the participant life cycle return exactly the actions
  the claim lists, \<open>participantLeft\<close> carrying the id and nothing else; and the
  listeners for the join, leave, role and email events dispatch exactly these actions.
\<close>

theorem participant_lifecycle_actions:
  "participantJoined p = ParticipantAction PARTICIPANT_JOINED p
   \<and> changeParticipantEmail pid email =
       ParticipantAction PARTICIPANT_UPDATED [''id'' \<mapsto> pid, ''email'' \<mapsto> email]
   \<and> participantRoleChanged pid role =
       ParticipantAction PARTICIPANT_UPDATED [''id'' \<mapsto> pid, ''role'' \<mapsto> role]
   \<and> participantLeft pid = ParticipantAction PARTICIPANT_LEFT [''id'' \<mapsto> pid]
   \<and> dom [''id'' \<mapsto> pid] = {''id''}
   \<and> listener c (UserJoinedEvent pid user) st =
       ([Dispatch (Plain (participantJoined
          [''id'' \<mapsto> pid, ''name'' \<mapsto> getDisplayName user, ''role'' \<mapsto> getRole user]))], Normal)
   \<and> listener c (UserRoleChangedEvent pid role) st =
       ([Dispatch (Plain (participantRoleChanged pid role))], Normal)
   \<and> listener c (EmailCommand data pid) st =
       ([Dispatch (Plain (changeParticipantEmail pid (getp data ''value'')))], Normal)
   \<and> listener c (UserLeftEvent pid) st =
       ([Dispatch (Plain (participantLeft pid))], Normal)"
  by (simp add: participantJoined_def changeParticipantEmail_def
      participantRoleChanged_def participantLeft_def)

text \<open>
  C8. \<open>localParticipantJoined(p)\<close> is \<open>participantJoined({...p, local: true})\<close>: the
  action's participant has \<open>local\<close> equal to \<open>true\<close> whatever \<open>p\<close> held there, also
  \<open>false\<close>, and every other property of \<open>p\<close> as it was.
\<close>

theorem localParticipantJoined_sets_local:
  "localParticipantJoined (Some p) = participantJoined (p(''local'' \<mapsto> JsBool True))
   \<and> localParticipantJoined (Some p) =
       ParticipantAction PARTICIPANT_JOINED (p(''local'' \<mapsto> JsBool True))
   \<and> getp (p(''local'' \<mapsto> JsBool True)) ''local'' = JsBool True
   \<and> localParticipantJoined (Some (p(''local'' \<mapsto> JsBool False))) =
       localParticipantJoined (Some p)"
  by (simp add: localParticipantJoined_def participantJoined_def getp_def)

section \<open>Track listeners\<close>

text \<open>
  C9. The listeners for \<open>TRACK_ADDED\<close> and \<open>TRACK_REMOVED\<close> that
  \<open>_setupConferenceListeners\<close> registers dispatch \<open>trackAdded(track)\<close> and
  \<open>trackRemoved(track)\<close> exactly when a track is received and it is not local, and
  otherwise return having done nothing; the listener for \<open>TRACK_MUTE_CHANGED\<close>
  dispatches \<open>trackMuteChanged(track)\<close> whatever it receives.
\<close>

theorem track_listeners_guard:
  "On c EV_TRACK_ADDED \<in> set (setupConferenceListeners c)
   \<and> On c EV_TRACK_REMOVED \<in> set (setupConferenceListeners c)
   \<and> On c EV_TRACK_MUTE_CHANGED \<in> set (setupConferenceListeners c)
   \<and> listener c (TrackAddedEvent track) st =
       ((if \<exists>t. track = Some t \<and> \<not> isLocal t
         then [Dispatch (Track trackAdded track)] else []), Normal)
   \<and> listener c (TrackRemovedEvent track) st =
       ((if \<exists>t. track = Some t \<and> \<not> isLocal t
         then [Dispatch (Track trackRemoved track)] else []), Normal)
   \<and> listener c (TrackMuteChangedEvent track) st =
       ([Dispatch (Track trackMuteChanged track)], Normal)"
  by (cases track) (simp_all add: setupConferenceListeners_def)

section \<open>No local participant\<close>

text \<open>
  C10. In a state whose roster has no participant flagged local, \<open>localParticipantLeft()\<close>
  and \<open>localParticipantIdChanged(id)\<close> return without any effect: they dispatch nothing,
  and the store state after them is the state before, whatever the reducer.
\<close>

theorem no_local_no_dispatch:
  assumes "getLocalParticipant st = None"
  shows "localParticipantLeft st = ([], Normal)
         \<and> localParticipantIdChanged pid st = ([], Normal)
         \<and> store_after reducer st (fst (localParticipantLeft st)) = st
         \<and> store_after reducer st (fst (localParticipantIdChanged pid st)) = st"
  using assms by (simp add: localParticipantLeft_def localParticipantIdChanged_def)

theorem no_local_no_dispatch_witness:
  "getLocalParticipant state_no_conference = None
   \<and> localParticipantLeft state_no_conference = ([], Normal)
   \<and> localParticipantIdChanged (JsString ''x'') state_no_conference = ([], Normal)"
  using no_conference_no_local
    no_local_no_dispatch [OF no_conference_no_local, of "JsString ''x''" "\<lambda>s d. s"]
  by simp

end
